theory Spec2Isabelle
  imports Complex_Main "HOL-Library.AList"
begin

section \<open>Values, records and errors\<close>

text \<open>
  The node list is what \<^verbatim>\<open>json.loads\<close> hands to the builders of
  \<^verbatim>\<open>graph_gen_web_app.py\<close>: a list of dictionaries with string keys.  A field value
  is \<^verbatim>\<open>None\<close>, a boolean, an unbounded Python integer, a string or a list of integers
  (an adjacency list).  Binary floating point numbers and nested containers are not part
  of this value universe.  A dictionary is an association list read with \<open>map_of\<close>, so a
  missing key is visible as \<open>None\<close>, and written with \<open>AList.update\<close>, which keeps the
  position of an existing key as a Python dictionary does.
\<close>

datatype pyval = PyNone | PyBool bool | PyInt int | PyStr string | PyList "int list"

datatype py_error = KeyError string | TypeError

type_synonym node = "(string \<times> pyval) list"

type_synonym coords = "pyval list \<times> pyval list \<times> pyval list"

text \<open>Sequencing of computations that may raise: the first exception wins.\<close>

fun bind :: "py_error + 'a \<Rightarrow> ('a \<Rightarrow> py_error + 'b) \<Rightarrow> py_error + 'b" where
  "bind (Inl e) f = Inl e"
| "bind (Inr v) f = f v"

text \<open>\<^verbatim>\<open>item[k]\<close>: a missing key raises \<^verbatim>\<open>KeyError\<close>.\<close>

definition getitem :: "node \<Rightarrow> string \<Rightarrow> py_error + pyval" where
  "getitem item k = (case map_of item k of None \<Rightarrow> Inl (KeyError k) | Some v \<Rightarrow> Inr v)"

text \<open>\<^verbatim>\<open>k in item\<close>.\<close>

definition has_key :: "string \<Rightarrow> node \<Rightarrow> bool" where
  "has_key k item = (map_of item k \<noteq> None)"

text \<open>
  \<^verbatim>\<open>for edge in v\<close>: a list yields its elements, a string its characters as
  one-character strings; \<^verbatim>\<open>None\<close>, booleans and integers are not iterable.
\<close>

fun py_iter :: "pyval \<Rightarrow> py_error + pyval list" where
  "py_iter (PyList ns) = Inr (map PyInt ns)"
| "py_iter (PyStr s) = Inr (map (\<lambda>c. PyStr [c]) s)"
| "py_iter PyNone = Inl TypeError"
| "py_iter (PyBool b) = Inl TypeError"
| "py_iter (PyInt n) = Inl TypeError"

text \<open>
  Python's \<^verbatim>\<open>==\<close> on these values: a boolean is the integer 0 or 1, values of
  different kinds are otherwise unequal.
\<close>

fun py_eq :: "pyval \<Rightarrow> pyval \<Rightarrow> bool" where
  "py_eq PyNone PyNone = True"
| "py_eq (PyBool a) (PyBool b) = (a = b)"
| "py_eq (PyBool a) (PyInt n) = ((if a then 1 else 0) = n)"
| "py_eq (PyInt n) (PyBool b) = (n = (if b then 1 else 0))"
| "py_eq (PyInt m) (PyInt n) = (m = n)"
| "py_eq (PyStr s) (PyStr t) = (s = t)"
| "py_eq (PyList xs) (PyList ys) = (xs = ys)"
| "py_eq v w = False"

section \<open>get\_edges\<close>

text \<open>
  \<^verbatim>\<open>next((node for node in data if node["id"] == edge), None)\<close>: the first node whose id
  equals the edge id; reading the id of a node that has none raises.
\<close>

fun next_node :: "node list \<Rightarrow> pyval \<Rightarrow> py_error + node option" where
  "next_node [] edge = Inr None"
| "next_node (node # rest) edge =
     bind (getitem node ''id'')
       (\<lambda>i. if py_eq i edge then Inr (Some node) else next_node rest edge)"

text \<open>The three \<^verbatim>\<open>extend\<close> calls of one resolved edge, in the order the source reads the fields.\<close>

definition extend_edge :: "node \<Rightarrow> node \<Rightarrow> coords \<Rightarrow> py_error + coords" where
  "extend_edge item target_node acc =
     (case acc of (edge_x, edge_y, edge_z) \<Rightarrow>
        bind (getitem item ''x'') (\<lambda>sx.
        bind (getitem target_node ''x'') (\<lambda>tx.
        bind (getitem item ''y'') (\<lambda>sy.
        bind (getitem target_node ''y'') (\<lambda>ty.
        bind (getitem item ''z'') (\<lambda>sz.
        bind (getitem target_node ''z'') (\<lambda>tz.
          Inr (edge_x @ [sx, tx, PyNone],
               edge_y @ [sy, ty, PyNone],
               edge_z @ [sz, tz, PyNone]))))))))"

text \<open>
  The inner loop \<^verbatim>\<open>for edge in item["edges"]\<close>.  \<^verbatim>\<open>if target_node:\<close> is the truth value
  of \<^verbatim>\<open>None\<close> or of a dictionary, which is true exactly for a non-empty dictionary.
\<close>

fun edges_loop :: "node list \<Rightarrow> node \<Rightarrow> pyval list \<Rightarrow> coords \<Rightarrow> py_error + coords" where
  "edges_loop data item [] acc = Inr acc"
| "edges_loop data item (edge # es) acc =
     bind (next_node data edge)
       (\<lambda>target_node.
          case target_node of
            None \<Rightarrow> edges_loop data item es acc
          | Some t \<Rightarrow>
              if t \<noteq> [] then bind (extend_edge item t acc) (edges_loop data item es)
              else edges_loop data item es acc)"

text \<open>
  The outer loop \<^verbatim>\<open>for item in data\<close>; the first argument is the list the targets are
  looked up in, the second the items still to visit.
\<close>

fun items_loop :: "node list \<Rightarrow> node list \<Rightarrow> coords \<Rightarrow> py_error + coords" where
  "items_loop data [] acc = Inr acc"
| "items_loop data (item # items) acc =
     (if has_key ''edges'' item then
        bind (getitem item ''edges'') (\<lambda>v.
        bind (py_iter v) (\<lambda>es.
        bind (edges_loop data item es acc) (items_loop data items)))
      else items_loop data items acc)"

definition get_edges :: "node list \<Rightarrow> py_error + coords" where
  "get_edges data = items_loop data data ([], [], [])"

section \<open>adjust\_node\_height\_data\<close>

text \<open>
  \<^verbatim>\<open>item["z"] = 0\<close> for every item when the flag is false; the list itself is returned.
\<close>

definition adjust_node_height_data :: "node list \<Rightarrow> bool \<Rightarrow> node list" where
  "adjust_node_height_data data node_height =
     (if \<not> node_height then map (AList.update ''z'' (PyInt 0)) data else data)"

section \<open>prepare\_node\_colors\_and\_sizes\<close>

text \<open>
  The two lookup tables \<^verbatim>\<open>material_mapping\<close> and \<^verbatim>\<open>material_colors\<close> are imported from
  \<^verbatim>\<open>graph_const\<close>; they are parameters here: a table from material codes to class names
  and a table from class names to colours.  \<^verbatim>\<open>d.get(k, default)\<close> hashes its key, which
  raises \<^verbatim>\<open>TypeError\<close> for a list.
\<close>

fun hashable :: "pyval \<Rightarrow> bool" where
  "hashable (PyList ns) = False"
| "hashable v = True"

definition dict_get :: "(pyval \<rightharpoonup> 'v) \<Rightarrow> pyval \<Rightarrow> 'v \<Rightarrow> py_error + 'v" where
  "dict_get d k dflt =
     (if hashable k then Inr (case d k of None \<Rightarrow> dflt | Some v \<Rightarrow> v) else Inl TypeError)"

text \<open>
  \<^verbatim>\<open>item['radius'] * node_radius_size\<close> with an integer scale (the slider value): integers
  multiply, a boolean counts as 0 or 1, a string or a list is repeated (not at all for a
  scale below 1), \<^verbatim>\<open>None\<close> raises.
\<close>

fun py_mul :: "pyval \<Rightarrow> int \<Rightarrow> py_error + pyval" where
  "py_mul (PyInt r) n = Inr (PyInt (r * n))"
| "py_mul (PyBool b) n = Inr (PyInt ((if b then 1 else 0) * n))"
| "py_mul (PyStr s) n = Inr (PyStr (concat (replicate (nat n) s)))"
| "py_mul (PyList ns) n = Inr (PyList (concat (replicate (nat n) ns)))"
| "py_mul PyNone n = Inl TypeError"

fun prepare_loop ::
  "(pyval \<rightharpoonup> string) \<Rightarrow> (string \<rightharpoonup> string) \<Rightarrow> int \<Rightarrow> node list \<Rightarrow>
   string list \<times> pyval list \<Rightarrow> py_error + string list \<times> pyval list" where
  "prepare_loop material_mapping material_colors node_radius_size [] acc = Inr acc"
| "prepare_loop material_mapping material_colors node_radius_size (item # items) acc =
     (case acc of (colors, sizes) \<Rightarrow>
        bind (getitem item ''material'') (\<lambda>material.
        bind (dict_get material_mapping material ''UNKNOWN'') (\<lambda>class_name.
        let color = (case material_colors class_name of None \<Rightarrow> ''purple'' | Some c \<Rightarrow> c) in
        bind (getitem item ''radius'') (\<lambda>radius.
        bind (py_mul radius node_radius_size) (\<lambda>size.
          prepare_loop material_mapping material_colors node_radius_size items
            (colors @ [color], sizes @ [size]))))))"

definition prepare_node_colors_and_sizes ::
  "(pyval \<rightharpoonup> string) \<Rightarrow> (string \<rightharpoonup> string) \<Rightarrow> node list \<Rightarrow> int \<Rightarrow>
   py_error + string list \<times> pyval list" where
  "prepare_node_colors_and_sizes material_mapping material_colors data node_radius_size =
     prepare_loop material_mapping material_colors node_radius_size data ([], [])"

section \<open>prepare\_hover\_text\<close>

text \<open>\<^verbatim>\<open>str\<close> on the values of the embedding, as an f-string field and \<^verbatim>\<open>map(str, ...)\<close> apply it.\<close>

fun str_nat :: "nat \<Rightarrow> string" where
  "str_nat n =
     (if n < 10 then [''0123456789'' ! n]
      else str_nat (n div 10) @ [''0123456789'' ! (n mod 10)])"

definition str_int :: "int \<Rightarrow> string" where
  "str_int i = (if i < 0 then CHR ''-'' # str_nat (nat (- i)) else str_nat (nat i))"

text \<open>\<^verbatim>\<open>sep.join(parts)\<close>.\<close>

fun join :: "string \<Rightarrow> string list \<Rightarrow> string" where
  "join sep [] = []"
| "join sep [s] = s"
| "join sep (s # t # ss) = s @ sep @ join sep (t # ss)"

fun py_str :: "pyval \<Rightarrow> string" where
  "py_str PyNone = ''None''"
| "py_str (PyBool b) = (if b then ''True'' else ''False'')"
| "py_str (PyInt n) = str_int n"
| "py_str (PyStr s) = s"
| "py_str (PyList ns) = ''['' @ join '', '' (map str_int ns) @ '']''"

text \<open>The body of the loop: the text of one node, built by successive \<^verbatim>\<open>text += ...\<close>.\<close>

definition hover_text :: "bool \<Rightarrow> bool \<Rightarrow> bool \<Rightarrow> bool \<Rightarrow> node \<Rightarrow> py_error + string" where
  "hover_text show_links show_material show_gamma_radius show_criteria item =
     bind (getitem item ''id'') (\<lambda>i.
     let text = ''Node ID: '' @ py_str i in
     bind (if show_links then
             bind (getitem item ''edges'') (\<lambda>v.
             bind (py_iter v) (\<lambda>es.
               Inr (text @ ''<br>Links: '' @ join '', '' (map py_str es))))
           else Inr text) (\<lambda>text.
     bind (if show_material then
             bind (getitem item ''material'') (\<lambda>m.
               Inr (text @ ''<br>Material: '' @ py_str m))
           else Inr text) (\<lambda>text.
     bind (if show_gamma_radius then
             bind (getitem item ''gamma'') (\<lambda>g.
             bind (getitem item ''radius'') (\<lambda>r.
               Inr (text @ ''<br>Gamma: '' @ py_str g @ ''<br>Radius: '' @ py_str r)))
           else Inr text) (\<lambda>text.
     if show_criteria then
       bind (getitem item ''criteria'') (\<lambda>c.
         Inr (text @ ''<br>Criteria: '' @ py_str c))
     else Inr text))))"

fun hover_loop ::
  "bool \<Rightarrow> bool \<Rightarrow> bool \<Rightarrow> bool \<Rightarrow> node list \<Rightarrow> string list \<Rightarrow> py_error + string list" where
  "hover_loop show_links show_material show_gamma_radius show_criteria [] text_data = Inr text_data"
| "hover_loop show_links show_material show_gamma_radius show_criteria (item # items) text_data =
     bind (hover_text show_links show_material show_gamma_radius show_criteria item) (\<lambda>text.
       hover_loop show_links show_material show_gamma_radius show_criteria items (text_data @ [text]))"

definition prepare_hover_text ::
  "node list \<Rightarrow> bool \<Rightarrow> bool \<Rightarrow> bool \<Rightarrow> bool \<Rightarrow> py_error + string list" where
  "prepare_hover_text data show_links show_material show_gamma_radius show_criteria =
     hover_loop show_links show_material show_gamma_radius show_criteria data []"

section \<open>plot\_3d\<close>

text \<open>
  The effects of \<^verbatim>\<open>plot_3d\<close> are the records written to the log and the figures handed
  to \<^verbatim>\<open>st.plotly_chart\<close>; both are components of an explicit state.  A figure is the data
  the source passes to the Plotly constructors; what Plotly and Streamlit do with it lies
  outside the program.
\<close>

text \<open>\<^verbatim>\<open>[item[k] for item in data]\<close>.\<close>

fun column :: "string \<Rightarrow> node list \<Rightarrow> py_error + pyval list" where
  "column k [] = Inr []"
| "column k (item # items) =
     bind (getitem item k) (\<lambda>v. bind (column k items) (\<lambda>vs. Inr (v # vs)))"

record marker =
  marker_color :: "string list"
  marker_size :: "pyval list"
  marker_symbol :: "string option"
  marker_sizemode :: string

datatype trace =
    Scatter3d (trace_x: "pyval list") (trace_y: "pyval list") (trace_z: "pyval list")
      (trace_mode: string) (trace_marker: "marker option") (trace_line_color: "string option")
      (trace_text: "string list option") (trace_hoverinfo: "string option")
  | Mesh3d (trace_x: "pyval list") (trace_y: "pyval list") (trace_z: "pyval list")
      (mesh_opacity: rat) (mesh_hoverinfo: string) (mesh_hovertext: "string list")
      (mesh_intensity: "int list") (mesh_colorscale: string) (mesh_cmin: int) (mesh_cmax: int)

record figure =
  fig_axis_titles :: "string \<times> string \<times> string"
  fig_aspectmode :: string
  fig_width :: int
  fig_height :: int
  fig_traces :: "trace list"

datatype level = INFO | ERROR

record world =
  log_records :: "(level \<times> string) list"
  charts :: "figure list"

definition logging :: "level \<Rightarrow> string \<Rightarrow> world \<Rightarrow> world" where
  "logging l msg w = w\<lparr>log_records := log_records w @ [(l, msg)]\<rparr>"

definition plotly_chart :: "figure \<Rightarrow> world \<Rightarrow> world" where
  "plotly_chart fig w = w\<lparr>charts := charts w @ [fig]\<rparr>"

definition node_markers :: "string list \<Rightarrow> pyval list \<Rightarrow> string option \<Rightarrow> marker" where
  "node_markers colors sizes symbol =
     \<lparr>marker_color = colors, marker_size = sizes, marker_symbol = symbol,
      marker_sizemode = ''diameter''\<rparr>"

text \<open>The \<^verbatim>\<open>if\<close>/\<^verbatim>\<open>elif\<close> chain on \<^verbatim>\<open>plot_type\<close>; \<open>None\<close> is its \<^verbatim>\<open>else\<close> branch.\<close>

definition mode_traces ::
  "string \<Rightarrow> string option \<Rightarrow> pyval list \<Rightarrow> pyval list \<Rightarrow> pyval list \<Rightarrow>
   string list \<Rightarrow> pyval list \<Rightarrow> string list \<Rightarrow> trace list option" where
  "mode_traces plot_type symbol x_data y_data z_data colors sizes hover_texts =
     (if plot_type = ''scatter'' then
        Some [Scatter3d x_data y_data z_data ''markers''
                (Some (node_markers colors sizes symbol)) None (Some hover_texts) (Some ''text'')]
      else if plot_type = ''surface'' then
        Some [Scatter3d x_data y_data z_data ''markers''
                (Some (node_markers colors sizes None)) None (Some hover_texts) (Some ''text'')]
      else if plot_type = ''line'' then
        Some [Scatter3d x_data y_data z_data ''lines+markers''
                (Some (node_markers colors sizes None)) (Some ''red'') (Some hover_texts)
                (Some ''text'')]
      else if plot_type = ''mesh'' then
        Some [Mesh3d x_data y_data z_data (1 / 2) ''text'' hover_texts
                (map int [0 ..< length colors]) ''Viridis'' 0 (int (length colors) - 1),
              Scatter3d x_data y_data z_data ''markers''
                (Some (node_markers colors sizes None)) None (Some hover_texts) (Some ''text'')]
      else None)"

text \<open>The trace of the adjacency lines, added after the node traces.\<close>

definition edge_trace :: "coords \<Rightarrow> trace" where
  "edge_trace edges =
     (case edges of (edge_x, edge_y, edge_z) \<Rightarrow>
        Scatter3d edge_x edge_y edge_z ''lines'' None (Some ''red'') None None)"

text \<open>
  The result is the exception that left the function, if any, and the state.  An
  exception of a builder leaves \<^verbatim>\<open>plot_3d\<close> after the first log record.
\<close>

definition plot_3d ::
  "(pyval \<rightharpoonup> string) \<Rightarrow> (string \<rightharpoonup> string) \<Rightarrow> node list \<Rightarrow> string \<Rightarrow> string option \<Rightarrow>
   bool \<Rightarrow> bool \<Rightarrow> bool \<Rightarrow> bool \<Rightarrow> int \<Rightarrow> world \<Rightarrow> py_error option \<times> world" where
  "plot_3d material_mapping material_colors data plot_type symbol show_links show_material
     show_gamma_radius show_criteria node_radius_size w =
     (let w1 = logging INFO (''Generating 3D '' @ plot_type @ '' plot'') w in
      case
        bind (column ''x'' data) (\<lambda>x_data.
        bind (column ''y'' data) (\<lambda>y_data.
        bind (column ''z'' data) (\<lambda>z_data.
        bind (if show_links then get_edges data else Inr ([], [], [])) (\<lambda>edges.
        bind (prepare_hover_text data show_links show_material show_gamma_radius show_criteria)
          (\<lambda>hover_texts.
        bind (prepare_node_colors_and_sizes material_mapping material_colors data node_radius_size)
          (\<lambda>styles. Inr (x_data, y_data, z_data, edges, hover_texts, styles)))))))
      of
        Inl e \<Rightarrow> (Some e, w1)
      | Inr (x_data, y_data, z_data, edges, hover_texts, (colors, sizes)) \<Rightarrow>
          (case mode_traces plot_type symbol x_data y_data z_data colors sizes hover_texts of
             None \<Rightarrow> (None, logging ERROR (''Invalid plot type: '' @ plot_type) w1)
           | Some node_traces \<Rightarrow>
               (let fig = \<lparr>fig_axis_titles = (''X'', ''Y'', ''Z''), fig_aspectmode = ''data'',
                           fig_width = 800, fig_height = 600,
                           fig_traces = node_traces @ (if show_links then [edge_trace edges] else [])\<rparr>;
                    w2 = plotly_chart fig w1
                in (None, logging INFO (''3D '' @ plot_type @ '' plot generated successfully'') w2))))"

section \<open>Notions used to state the properties\<close>

text \<open>The value of a field, \<^verbatim>\<open>None\<close> standing for a missing key.\<close>

definition field :: "string \<Rightarrow> node \<Rightarrow> pyval" where
  "field k item = (case map_of item k of None \<Rightarrow> PyNone | Some v \<Rightarrow> v)"

text \<open>The edge ids a node lists; none when it has no \<^verbatim>\<open>edges\<close> key.\<close>

definition edge_ids :: "node \<Rightarrow> pyval list" where
  "edge_ids item =
     (case map_of item ''edges'' of
        None \<Rightarrow> []
      | Some v \<Rightarrow> (case py_iter v of Inl e \<Rightarrow> [] | Inr es \<Rightarrow> es))"

definition id_matches :: "pyval \<Rightarrow> node \<Rightarrow> bool" where
  "id_matches edge n = (case map_of n ''id'' of None \<Rightarrow> False | Some i \<Rightarrow> py_eq i edge)"

fun iterable :: "pyval \<Rightarrow> bool" where
  "iterable (PyList ns) = True"
| "iterable (PyStr s) = True"
| "iterable v = False"

text \<open>
  A structurally valid record: it has an id and a position, and its adjacency list, when
  present, can be iterated.
\<close>

definition valid_node :: "node \<Rightarrow> bool" where
  "valid_node item =
     (has_key ''id'' item \<and> has_key ''x'' item \<and> has_key ''y'' item \<and> has_key ''z'' item \<and>
      (case map_of item ''edges'' of None \<Rightarrow> True | Some v \<Rightarrow> iterable v))"

text \<open>
  The expected edge geometry: for every node in order, for every edge id of the node in
  order that some node of the list carries as its id, the coordinate of the node, the
  coordinate of the first such target and the sentinel.
\<close>

definition targets :: "node list \<Rightarrow> node \<Rightarrow> node list" where
  "targets data item = List.map_filter (\<lambda>e. find (id_matches e) data) (edge_ids item)"

definition segments :: "string \<Rightarrow> node list \<Rightarrow> node list \<Rightarrow> pyval list" where
  "segments k data items =
     concat (map (\<lambda>item. concat (map (\<lambda>t. [field k item, field k t, PyNone]) (targets data item))) items)"

definition no_edges :: "node list \<Rightarrow> bool" where
  "no_edges data =
     list_all (\<lambda>item. case map_of item ''edges'' of None \<Rightarrow> True | Some v \<Rightarrow> py_iter v = Inr []) data"

definition total_edge_count :: "node list \<Rightarrow> nat" where
  "total_edge_count data = sum_list (map (\<lambda>item. length (edge_ids item)) data)"

definition all_edges_resolve :: "node list \<Rightarrow> bool" where
  "all_edges_resolve data =
     list_all (\<lambda>item. list_all (\<lambda>e. list_ex (id_matches e) data) (edge_ids item)) data"

definition resolvable_count :: "node list \<Rightarrow> nat" where
  "resolvable_count data =
     sum_list (map (\<lambda>item. length (filter (\<lambda>e. list_ex (id_matches e) data) (edge_ids item))) data)"

text \<open>A node whose material can be looked up and whose radius is an integer.\<close>

definition styled_node :: "node \<Rightarrow> bool" where
  "styled_node item =
     ((case map_of item ''material'' of None \<Rightarrow> False | Some m \<Rightarrow> hashable m) \<and>
      (case map_of item ''radius'' of Some (PyInt r) \<Rightarrow> True | _ \<Rightarrow> False))"

definition radius_of :: "node \<Rightarrow> int" where
  "radius_of item = (case map_of item ''radius'' of Some (PyInt r) \<Rightarrow> r | _ \<Rightarrow> 0)"

text \<open>
  The colour of a material: through the material-name table, with class name
  \<^verbatim>\<open>UNKNOWN\<close> for an absent code, then through the colour table, with \<^verbatim>\<open>purple\<close> for
  an absent class name.
\<close>

definition resolve_color :: "(pyval \<rightharpoonup> string) \<Rightarrow> (string \<rightharpoonup> string) \<Rightarrow> pyval \<Rightarrow> string" where
  "resolve_color material_mapping material_colors m =
     (let class_name = (case material_mapping m of None \<Rightarrow> ''UNKNOWN'' | Some c \<Rightarrow> c)
      in case material_colors class_name of None \<Rightarrow> ''purple'' | Some col \<Rightarrow> col)"

text \<open>A node that has the fields the requested sections read.\<close>

definition hover_node :: "bool \<Rightarrow> bool \<Rightarrow> bool \<Rightarrow> bool \<Rightarrow> node \<Rightarrow> bool" where
  "hover_node show_links show_material show_gamma_radius show_criteria item =
     (has_key ''id'' item \<and>
      (if show_links then (case map_of item ''edges'' of None \<Rightarrow> False | Some v \<Rightarrow> iterable v) else True) \<and>
      (if show_material then has_key ''material'' item else True) \<and>
      (if show_gamma_radius then has_key ''gamma'' item \<and> has_key ''radius'' item else True) \<and>
      (if show_criteria then has_key ''criteria'' item else True))"

text \<open>
  The expected hover text: the id line, then the sections whose flag is set, in the order
  links, material, gamma with radius, criteria.
\<close>

definition hover_sections :: "bool \<Rightarrow> bool \<Rightarrow> bool \<Rightarrow> bool \<Rightarrow> node \<Rightarrow> string" where
  "hover_sections show_links show_material show_gamma_radius show_criteria item =
     ''Node ID: '' @ py_str (field ''id'' item)
     @ (if show_links then ''<br>Links: '' @ join '', '' (map py_str (edge_ids item)) else [])
     @ (if show_material then ''<br>Material: '' @ py_str (field ''material'' item) else [])
     @ (if show_gamma_radius then
          ''<br>Gamma: '' @ py_str (field ''gamma'' item)
          @ ''<br>Radius: '' @ py_str (field ''radius'' item)
        else [])
     @ (if show_criteria then ''<br>Criteria: '' @ py_str (field ''criteria'' item) else [])"

text \<open>The four plot types of the \<^verbatim>\<open>if\<close>/\<^verbatim>\<open>elif\<close> chain.\<close>

definition recognized :: "string \<Rightarrow> bool" where
  "recognized plot_type =
     (plot_type = ''scatter'' \<or> plot_type = ''surface'' \<or> plot_type = ''line'' \<or> plot_type = ''mesh'')"

text \<open>
  A node list on which the three builders return for the given flags: structurally valid
  records that have the fields the requested hover sections read, a material that can be
  looked up and an integer radius.
\<close>

definition renderable :: "bool \<Rightarrow> bool \<Rightarrow> bool \<Rightarrow> bool \<Rightarrow> node list \<Rightarrow> bool" where
  "renderable show_links show_material show_gamma_radius show_criteria data =
     (list_all valid_node data \<and>
      list_all (hover_node show_links show_material show_gamma_radius show_criteria) data \<and>
      list_all styled_node data)"

text \<open>The node traces expected for a plot type, and the state after a successful call.\<close>

definition node_layer ::
  "(pyval \<rightharpoonup> string) \<Rightarrow> (string \<rightharpoonup> string) \<Rightarrow> node list \<Rightarrow> string \<Rightarrow> string option \<Rightarrow>
   bool \<Rightarrow> bool \<Rightarrow> bool \<Rightarrow> bool \<Rightarrow> int \<Rightarrow> trace list option" where
  "node_layer mm mc data plot_type symbol show_links show_material show_gamma_radius show_criteria s =
     mode_traces plot_type symbol
       (map (field ''x'') data) (map (field ''y'') data) (map (field ''z'') data)
       (map (\<lambda>item. resolve_color mm mc (field ''material'' item)) data)
       (map (\<lambda>item. PyInt (radius_of item * s)) data)
       (map (hover_sections show_links show_material show_gamma_radius show_criteria) data)"

definition rendered :: "trace list \<Rightarrow> string \<Rightarrow> world \<Rightarrow> world" where
  "rendered ts plot_type w =
     logging INFO (''3D '' @ plot_type @ '' plot generated successfully'')
       (plotly_chart
          \<lparr>fig_axis_titles = (''X'', ''Y'', ''Z''), fig_aspectmode = ''data'',
           fig_width = 800, fig_height = 600, fig_traces = ts\<rparr>
          (logging INFO (''Generating 3D '' @ plot_type @ '' plot'') w))"

section \<open>Example node lists\<close>

definition scenario_nodes :: "node list" where
  "scenario_nodes =
     [[(''id'', PyInt 1), (''x'', PyInt 0), (''y'', PyInt 0), (''z'', PyInt 0),
       (''material'', PyStr ''A''), (''edges'', PyList [2])],
      [(''id'', PyInt 2), (''x'', PyInt 1), (''y'', PyInt 1), (''z'', PyInt 1),
       (''material'', PyStr ''B''), (''edges'', PyList [])]]"

definition dangling_nodes :: "node list" where
  "dangling_nodes =
     [[(''id'', PyInt 1), (''x'', PyInt 0), (''y'', PyInt 0), (''z'', PyInt 0),
       (''edges'', PyList [7, 2])],
      [(''id'', PyInt 2), (''x'', PyInt 1), (''y'', PyInt 1), (''z'', PyInt 1)]]"

definition partial_nodes :: "node list" where
  "partial_nodes =
     [[(''id'', PyInt 1)],
      [(''id'', PyInt 2), (''x'', PyInt 1), (''y'', PyInt 1), (''z'', PyInt 1),
       (''edges'', PyList [2])]]"

definition short_nodes :: "node list" where
  "short_nodes = [[(''id'', PyInt 1), (''x'', PyInt 0), (''y'', PyInt 0), (''z'', PyInt 0)]]"

definition hover_nodes :: "node list" where
  "hover_nodes =
     [[(''id'', PyInt 5), (''material'', PyStr ''X''), (''gamma'', PyInt 2), (''radius'', PyInt 3)]]"


definition tall_nodes :: "node list" where
  "tall_nodes =
     [[(''id'', PyInt 1), (''x'', PyInt 4), (''y'', PyInt 5), (''z'', PyInt 6),
       (''edges'', PyList [2])],
      [(''id'', PyInt 2), (''x'', PyInt 7), (''y'', PyInt 8)]]"

definition full_nodes :: "node list" where
  "full_nodes =
     [[(''id'', PyInt 1), (''x'', PyInt 0), (''y'', PyInt 0), (''z'', PyInt 0),
       (''material'', PyStr ''A''), (''gamma'', PyInt 2), (''radius'', PyInt 3),
       (''criteria'', PyStr ''door''), (''edges'', PyList [2])],
      [(''id'', PyInt 2), (''x'', PyInt 1), (''y'', PyInt 1), (''z'', PyInt 1),
       (''material'', PyStr ''B''), (''gamma'', PyInt 4), (''radius'', PyInt 5),
       (''criteria'', PyStr ''none''), (''edges'', PyList [])]]"

section \<open>Edge geometry: auxiliary facts\<close>

lemma getitem_field: "has_key k item \<Longrightarrow> getitem item k = Inr (field k item)"
  by (auto simp: has_key_def getitem_def field_def)

lemma next_node_find:
  "list_all (has_key ''id'') data \<Longrightarrow> next_node data e = Inr (find (id_matches e) data)"
  by (induction data) (auto simp: has_key_def getitem_def id_matches_def)

lemma extend_edge_valid:
  "valid_node item \<Longrightarrow> valid_node t \<Longrightarrow>
   extend_edge item t (ax, ay, az) =
     Inr (ax @ [field ''x'' item, field ''x'' t, PyNone],
          ay @ [field ''y'' item, field ''y'' t, PyNone],
          az @ [field ''z'' item, field ''z'' t, PyNone])"
  by (simp add: extend_edge_def valid_node_def getitem_field)

lemma valid_node_nonempty: "valid_node t \<Longrightarrow> t \<noteq> []"
  by (auto simp: valid_node_def has_key_def)

lemma find_valid: "list_all valid_node data \<Longrightarrow> find P data = Some t \<Longrightarrow> valid_node t"
  by (induction data) (auto split: if_splits)

lemma all_valid_ids: "list_all valid_node data \<Longrightarrow> list_all (has_key ''id'') data"
  by (induction data) (auto simp: valid_node_def)

lemma edges_loop_valid:
  "list_all valid_node data \<Longrightarrow> valid_node item \<Longrightarrow>
   edges_loop data item es (ax, ay, az) =
     Inr (ax @ concat (map (\<lambda>t. [field ''x'' item, field ''x'' t, PyNone]) (List.map_filter (\<lambda>e. find (id_matches e) data) es)),
          ay @ concat (map (\<lambda>t. [field ''y'' item, field ''y'' t, PyNone]) (List.map_filter (\<lambda>e. find (id_matches e) data) es)),
          az @ concat (map (\<lambda>t. [field ''z'' item, field ''z'' t, PyNone]) (List.map_filter (\<lambda>e. find (id_matches e) data) es)))"
proof (induction es arbitrary: ax ay az)
  case Nil
  then show ?case by simp
next
  case (Cons e es)
  show ?case
  proof (cases "find (id_matches e) data")
    case None
    with Cons show ?thesis
      by (simp add: next_node_find all_valid_ids)
  next
    case (Some t)
    with Cons.prems have vt: "valid_node t" by (auto dest: find_valid)
    with Some Cons show ?thesis
      by (simp add: next_node_find all_valid_ids valid_node_nonempty extend_edge_valid)
  qed
qed

lemma iterable_iter: "iterable v \<Longrightarrow> \<exists>es. py_iter v = Inr es"
  by (cases v) auto

lemma edges_of_valid:
  assumes "valid_node item" and "has_key ''edges'' item"
  shows "\<exists>v. getitem item ''edges'' = Inr v \<and> py_iter v = Inr (edge_ids item)"
proof -
  from assms obtain v where v: "map_of item ''edges'' = Some v" "iterable v"
    by (auto simp: valid_node_def has_key_def)
  then obtain es where "py_iter v = Inr es"
    using iterable_iter by blast
  with v show ?thesis
    by (simp add: getitem_def edge_ids_def)
qed

lemma edge_ids_no_key: "\<not> has_key ''edges'' item \<Longrightarrow> edge_ids item = []"
  by (simp add: has_key_def edge_ids_def)

lemma items_loop_valid:
  "list_all valid_node data \<Longrightarrow> list_all valid_node items \<Longrightarrow>
   items_loop data items (ax, ay, az) =
     Inr (ax @ segments ''x'' data items, ay @ segments ''y'' data items, az @ segments ''z'' data items)"
proof (induction items arbitrary: ax ay az)
  case Nil
  then show ?case by (simp add: segments_def)
next
  case (Cons item items)
  show ?case
  proof (cases "has_key ''edges'' item")
    case True
    with Cons.prems obtain v where "getitem item ''edges'' = Inr v" "py_iter v = Inr (edge_ids item)"
      using edges_of_valid by auto
    with True Cons show ?thesis
      by (simp add: edges_loop_valid segments_def targets_def)
  next
    case False
    with Cons show ?thesis
      by (simp add: segments_def targets_def edge_ids_no_key)
  qed
qed

lemma extend_edge_lengths:
  "extend_edge item t (ax, ay, az) = Inr (bx, by', bz) \<Longrightarrow>
   length ax = length ay \<Longrightarrow> length ay = length az \<Longrightarrow>
   length bx = length by' \<and> length by' = length bz"
  by (auto simp: extend_edge_def getitem_def split: option.splits)

lemma edges_loop_lengths:
  "edges_loop data item es (ax, ay, az) = Inr (bx, by', bz) \<Longrightarrow>
   length ax = length ay \<Longrightarrow> length ay = length az \<Longrightarrow>
   length bx = length by' \<and> length by' = length bz"
proof (induction es arbitrary: ax ay az)
  case Nil
  then show ?case by simp
next
  case (Cons e es)
  from Cons.prems(1) obtain tn where tn: "next_node data e = Inr tn"
    by (cases "next_node data e") auto
  show ?case
  proof (cases "tn = None \<or> tn = Some []")
    case True
    with tn Cons.prems have "edges_loop data item es (ax, ay, az) = Inr (bx, by', bz)"
      by auto
    with Cons show ?thesis by blast
  next
    case False
    then obtain t where t: "tn = Some t" "t \<noteq> []" by auto
    with tn Cons.prems(1) obtain cx cy cz where
      c: "extend_edge item t (ax, ay, az) = Inr (cx, cy, cz)"
         "edges_loop data item es (cx, cy, cz) = Inr (bx, by', bz)"
      by (cases "extend_edge item t (ax, ay, az)") auto
    from extend_edge_lengths [OF c(1) Cons.prems(2,3)] Cons.IH [OF c(2)]
    show ?thesis by blast
  qed
qed

lemma items_loop_lengths:
  "items_loop data items (ax, ay, az) = Inr (bx, by', bz) \<Longrightarrow>
   length ax = length ay \<Longrightarrow> length ay = length az \<Longrightarrow>
   length bx = length by' \<and> length by' = length bz"
proof (induction items arbitrary: ax ay az)
  case Nil
  then show ?case by simp
next
  case (Cons item items)
  show ?case
  proof (cases "has_key ''edges'' item")
    case False
    with Cons show ?thesis by simp
  next
    case True
    with Cons.prems(1) obtain es cx cy cz where
      c: "edges_loop data item es (ax, ay, az) = Inr (cx, cy, cz)"
         "items_loop data items (cx, cy, cz) = Inr (bx, by', bz)"
      by (cases "getitem item ''edges''"; cases "py_iter (projr (getitem item ''edges''))";
          cases "edges_loop data item (projr (py_iter (projr (getitem item ''edges'')))) (ax, ay, az)")
         auto
    from edges_loop_lengths [OF c(1) Cons.prems(2,3)] Cons.IH [OF c(2)]
    show ?thesis by blast
  qed
qed

lemma items_loop_no_edges:
  "no_edges items \<Longrightarrow> items_loop data items acc = Inr acc"
  by (induction items) (auto simp: no_edges_def has_key_def getitem_def split: option.splits)

lemma length_segments:
  "length (segments k data items) = 3 * sum_list (map (\<lambda>item. length (targets data item)) items)"
  by (induction items) (simp_all add: segments_def length_concat comp_def sum_list_triv)

lemma find_ex: "list_ex P xs \<Longrightarrow> \<exists>t. find P xs = Some t"
  by (induction xs) auto

lemma find_unmatched: "\<not> list_ex P xs \<Longrightarrow> find P xs = None"
  by (induction xs) auto

lemma length_targets_resolved:
  "list_all (\<lambda>e. list_ex (id_matches e) data) es \<Longrightarrow>
   length (List.map_filter (\<lambda>e. find (id_matches e) data) es) = length es"
  by (induction es) (auto dest: find_ex)

lemma resolved_count:
  "list_all (\<lambda>item. list_all (\<lambda>e. list_ex (id_matches e) data) (edge_ids item)) items \<Longrightarrow>
   sum_list (map (\<lambda>item. length (targets data item)) items) =
   sum_list (map (\<lambda>item. length (edge_ids item)) items)"
  by (induction items) (simp_all add: targets_def length_targets_resolved)

lemma next_node_unmatched:
  "list_all (has_key ''id'') data \<Longrightarrow> \<not> list_ex (id_matches e) data \<Longrightarrow>
   next_node data e = Inr None"
  by (induction data) (auto simp: has_key_def getitem_def id_matches_def)

lemma length_targets_filter:
  "length (List.map_filter (\<lambda>e. find (id_matches e) data) es) =
   length (filter (\<lambda>e. list_ex (id_matches e) data) es)"
  by (induction es) (auto dest: find_ex simp: find_unmatched)

lemma length_segments_resolvable:
  "length (segments k data data) = 3 * resolvable_count data"
  by (simp add: length_segments resolvable_count_def targets_def length_targets_filter)

lemma items_loop_filter:
  "items_loop data items acc = items_loop data (filter (has_key ''edges'') items) acc"
proof (induction items arbitrary: acc)
  case Nil
  then show ?case by simp
next
  case (Cons item items)
  show ?case
  proof (cases "has_key ''edges'' item")
    case False
    with Cons show ?thesis by simp
  next
    case True
    have "items_loop data items = items_loop data (filter (has_key ''edges'') items)"
      by (rule ext) (rule Cons.IH)
    with True show ?thesis by simp
  qed
qed

section \<open>Edge geometry: properties\<close>

text \<open>
  Claim C1.  Whenever \<open>get_edges\<close> returns, its three sequences have the same length.  On a
  list in which no node has any edge it returns three empty sequences.  On a list of
  structurally valid records it returns, and if every edge id of every node is the id of
  some node of the list, each sequence has three entries for every edge occurrence: the
  source coordinate, the target coordinate and the sentinel.
\<close>

theorem get_edges_lengths:
  "(\<forall>xs ys zs. get_edges data = Inr (xs, ys, zs) \<longrightarrow> length xs = length ys \<and> length ys = length zs)
   \<and> (no_edges data \<longrightarrow> get_edges data = Inr ([], [], []))
   \<and> (list_all valid_node data \<longrightarrow>
        (\<exists>xs ys zs. get_edges data = Inr (xs, ys, zs)
           \<and> length xs = length ys \<and> length ys = length zs
           \<and> (all_edges_resolve data \<longrightarrow>
                 length xs = 3 * total_edge_count data \<and>
                 length ys = 3 * total_edge_count data \<and>
                 length zs = 3 * total_edge_count data)))"
proof (intro conjI allI impI)
  fix xs ys zs
  assume "get_edges data = Inr (xs, ys, zs)"
  then have "items_loop data data ([], [], []) = Inr (xs, ys, zs)"
    by (simp add: get_edges_def)
  from items_loop_lengths [OF this]
  show "length xs = length ys" and "length ys = length zs" by simp_all
next
  assume "no_edges data"
  then show "get_edges data = Inr ([], [], [])"
    by (simp add: get_edges_def items_loop_no_edges)
next
  assume v: "list_all valid_node data"
  have g: "get_edges data =
      Inr (segments ''x'' data data, segments ''y'' data data, segments ''z'' data data)"
    using items_loop_valid [OF v v, of "[]" "[]" "[]"] by (simp add: get_edges_def)
  have r: "all_edges_resolve data \<Longrightarrow>
      length (segments k data data) = 3 * total_edge_count data" for k
    by (simp add: length_segments all_edges_resolve_def total_edge_count_def resolved_count)
  show "\<exists>xs ys zs. get_edges data = Inr (xs, ys, zs)
           \<and> length xs = length ys \<and> length ys = length zs
           \<and> (all_edges_resolve data \<longrightarrow>
                 length xs = 3 * total_edge_count data \<and>
                 length ys = 3 * total_edge_count data \<and>
                 length zs = 3 * total_edge_count data)"
    using g r by (simp add: length_segments)
qed

theorem get_edges_lengths_witness:
  "list_all valid_node scenario_nodes \<and> all_edges_resolve scenario_nodes
   \<and> total_edge_count scenario_nodes = 1
   \<and> get_edges scenario_nodes =
       Inr ([PyInt 0, PyInt 1, PyNone], [PyInt 0, PyInt 1, PyNone], [PyInt 0, PyInt 1, PyNone])
   \<and> no_edges (map (AList.delete ''edges'') scenario_nodes)
   \<and> get_edges (map (AList.delete ''edges'') scenario_nodes) = Inr ([], [], [])"
  using get_edges_lengths [of scenario_nodes]
    get_edges_lengths [of "map (AList.delete ''edges'') scenario_nodes"]
  by (simp add: scenario_nodes_def valid_node_def has_key_def all_edges_resolve_def
      total_edge_count_def edge_ids_def id_matches_def no_edges_def get_edges_def
      getitem_def extend_edge_def)

text \<open>
  Claim C8.  An edge id that no node of the list carries is skipped by the loop over the
  edges: the loop continues with the remaining edges on the unchanged output and without
  an error.  On a list of structurally valid records \<open>get_edges\<close> returns exactly the
  coordinates of the resolvable edge occurrences, in order, three entries for each of
  them and none for the others.
\<close>

theorem dangling_edge_skipped:
  "(list_all (has_key ''id'') data \<and> \<not> list_ex (id_matches edge) data \<longrightarrow>
      edges_loop data item (edge # es) acc = edges_loop data item es acc)
   \<and> (list_all valid_node data \<longrightarrow>
        get_edges data =
          Inr (segments ''x'' data data, segments ''y'' data data, segments ''z'' data data)
        \<and> length (segments ''x'' data data) = 3 * resolvable_count data
        \<and> length (segments ''y'' data data) = 3 * resolvable_count data
        \<and> length (segments ''z'' data data) = 3 * resolvable_count data)"
proof (intro conjI impI)
  assume "list_all (has_key ''id'') data \<and> \<not> list_ex (id_matches edge) data"
  then show "edges_loop data item (edge # es) acc = edges_loop data item es acc"
    by (simp add: next_node_unmatched)
next
  assume v: "list_all valid_node data"
  show "get_edges data =
          Inr (segments ''x'' data data, segments ''y'' data data, segments ''z'' data data)"
    using items_loop_valid [OF v v, of "[]" "[]" "[]"] by (simp add: get_edges_def)
qed (rule length_segments_resolvable)+

theorem dangling_edge_skipped_witness:
  "list_all valid_node dangling_nodes
   \<and> \<not> list_ex (id_matches (PyInt 7)) dangling_nodes
   \<and> resolvable_count dangling_nodes = 1
   \<and> get_edges dangling_nodes =
       Inr ([PyInt 0, PyInt 1, PyNone], [PyInt 0, PyInt 1, PyNone], [PyInt 0, PyInt 1, PyNone])"
  using dangling_edge_skipped [of dangling_nodes "PyInt 7"]
  by (simp add: dangling_nodes_def valid_node_def has_key_def id_matches_def segments_def
      targets_def edge_ids_def field_def resolvable_count_def)

text \<open>
  Claim C9.  A record without the key \<^verbatim>\<open>edges\<close> is passed over by the membership test
  and contributes nothing: the result of \<open>get_edges\<close> is the result of the loop over the
  records that have the key, with the targets still looked up in the whole list; no
  requirement on the records is needed for this, and a list in which no record has the key
  yields three empty sequences.
\<close>

theorem get_edges_missing_edges_key:
  "(\<not> has_key ''edges'' item \<longrightarrow>
      items_loop data (item # items) acc = items_loop data items acc)
   \<and> get_edges data = items_loop data (filter (has_key ''edges'') data) ([], [], [])
   \<and> (list_all (\<lambda>item. \<not> has_key ''edges'' item) data \<longrightarrow> get_edges data = Inr ([], [], []))"
proof (intro conjI impI)
  show "get_edges data = items_loop data (filter (has_key ''edges'') data) ([], [], [])"
    unfolding get_edges_def by (rule items_loop_filter)
next
  assume "list_all (\<lambda>item. \<not> has_key ''edges'' item) data"
  then have "filter (has_key ''edges'') data = []"
    by (induction data) auto
  then show "get_edges data = Inr ([], [], [])"
    using items_loop_filter [of data data "([], [], [])"] by (simp add: get_edges_def)
qed simp

theorem get_edges_missing_edges_key_witness:
  "\<not> has_key ''edges'' (hd partial_nodes)
   \<and> filter (has_key ''edges'') partial_nodes = tl partial_nodes
   \<and> get_edges partial_nodes = items_loop partial_nodes (tl partial_nodes) ([], [], [])
   \<and> get_edges partial_nodes =
       Inr ([PyInt 1, PyInt 1, PyNone], [PyInt 1, PyInt 1, PyNone], [PyInt 1, PyInt 1, PyNone])
   \<and> list_all (\<lambda>item. \<not> has_key ''edges'' item) [hd partial_nodes]
   \<and> get_edges [hd partial_nodes] = Inr ([], [], [])"
  using get_edges_missing_edges_key [of "hd partial_nodes" partial_nodes "tl partial_nodes" "([], [], [])"]
    get_edges_missing_edges_key [of "hd partial_nodes" "[hd partial_nodes]" "[]" "([], [], [])"]
  by (simp add: partial_nodes_def has_key_def getitem_def extend_edge_def)

section \<open>Height adjustment\<close>

lemma map_of_adjusted:
  "map_of (AList.update ''z'' v item) k = (if k = ''z'' then Some v else map_of item k)"
  by (simp add: update_conv')

text \<open>
  Claim C5.  With the flag true \<open>adjust_node_height_data\<close> returns its input.  With the flag
  false every node of the result has z equal to 0, and x and y as in the input.  Applying
  the function twice with the same flag gives the same list as applying it once.
\<close>

theorem adjust_node_height_data_z:
  "adjust_node_height_data data True = data
   \<and> map (\<lambda>item. map_of item ''z'') (adjust_node_height_data data False) = map (\<lambda>item. Some (PyInt 0)) data
   \<and> map (\<lambda>item. map_of item ''x'') (adjust_node_height_data data False) = map (\<lambda>item. map_of item ''x'') data
   \<and> map (\<lambda>item. map_of item ''y'') (adjust_node_height_data data False) = map (\<lambda>item. map_of item ''y'') data
   \<and> adjust_node_height_data (adjust_node_height_data data node_height) node_height =
       adjust_node_height_data data node_height"
  by (simp add: adjust_node_height_data_def map_of_adjusted comp_def)

theorem adjust_node_height_data_z_witness:
  "adjust_node_height_data tall_nodes False =
     [[(''id'', PyInt 1), (''x'', PyInt 4), (''y'', PyInt 5), (''z'', PyInt 0),
       (''edges'', PyList [2])],
      [(''id'', PyInt 2), (''x'', PyInt 7), (''y'', PyInt 8), (''z'', PyInt 0)]]
   \<and> adjust_node_height_data (adjust_node_height_data tall_nodes False) False =
       adjust_node_height_data tall_nodes False"
  using adjust_node_height_data_z [of tall_nodes False]
  by (simp add: tall_nodes_def adjust_node_height_data_def)

text \<open>
  Claim C10.  For both flag values the result of \<open>adjust_node_height_data\<close> has as many
  nodes as the input, in the same order, and every key other than z (id, x, y, material,
  gamma, radius, criteria, edges) has in every node the value it had, or is absent as it
  was; apart from z the nodes have the same keys as before.
\<close>

theorem adjust_node_height_data_frame:
  "length (adjust_node_height_data data node_height) = length data
   \<and> (k \<noteq> ''z'' \<longrightarrow>
        map (\<lambda>item. map_of item k) (adjust_node_height_data data node_height) =
        map (\<lambda>item. map_of item k) data)
   \<and> map (\<lambda>item. fst ` set item - {''z''}) (adjust_node_height_data data node_height) =
       map (\<lambda>item. fst ` set item - {''z''}) data"
  by (auto simp: adjust_node_height_data_def map_of_adjusted comp_def dom_update)

theorem adjust_node_height_data_frame_witness:
  "''edges'' \<noteq> ''z''
   \<and> map (\<lambda>item. map_of item ''edges'') (adjust_node_height_data tall_nodes False) =
       [Some (PyList [2]), None]
   \<and> map (\<lambda>item. map_of item ''id'') (adjust_node_height_data tall_nodes False) =
       [Some (PyInt 1), Some (PyInt 2)]"
  using adjust_node_height_data_frame [of tall_nodes False "''edges''"]
    adjust_node_height_data_frame [of tall_nodes False "''id''"]
  by (simp add: tall_nodes_def)

section \<open>Node colours and sizes\<close>

lemma prepare_loop_styled:
  "list_all styled_node items \<Longrightarrow>
   prepare_loop mm mc s items (cs, ss) =
     Inr (cs @ map (\<lambda>item. resolve_color mm mc (field ''material'' item)) items,
          ss @ map (\<lambda>item. PyInt (radius_of item * s)) items)"
proof (induction items arbitrary: cs ss)
  case Nil
  then show ?case by simp
next
  case (Cons item items)
  from Cons.prems obtain m r where
    m: "map_of item ''material'' = Some m" "hashable m" and
    r: "map_of item ''radius'' = Some (PyInt r)"
    by (auto simp: styled_node_def split: option.splits pyval.splits)
  from Cons.prems have "list_all styled_node items" by simp
  with m r Cons.IH show ?case
    by (simp add: getitem_def dict_get_def resolve_color_def field_def radius_of_def)
qed



section \<open>Hover text\<close>

lemma hover_text_sections:
  assumes "hover_node sl sm sg sc item"
  shows "hover_text sl sm sg sc item = Inr (hover_sections sl sm sg sc item)"
proof -
  from assms obtain i where i: "map_of item ''id'' = Some i"
    by (auto simp: hover_node_def has_key_def)
  have links: "sl \<Longrightarrow> \<exists>v. map_of item ''edges'' = Some v \<and> py_iter v = Inr (edge_ids item)"
  proof -
    assume sl
    with assms obtain v where v: "map_of item ''edges'' = Some v" "iterable v"
      by (auto simp: hover_node_def split: option.splits)
    then obtain es where "py_iter v = Inr es" using iterable_iter by blast
    with v show ?thesis by (simp add: edge_ids_def)
  qed
  have mat: "sm \<Longrightarrow> getitem item ''material'' = Inr (field ''material'' item)"
    using assms by (simp add: hover_node_def getitem_field)
  have gam: "sg \<Longrightarrow> getitem item ''gamma'' = Inr (field ''gamma'' item)"
    using assms by (simp add: hover_node_def getitem_field)
  have rad: "sg \<Longrightarrow> getitem item ''radius'' = Inr (field ''radius'' item)"
    using assms by (simp add: hover_node_def getitem_field)
  have cri: "sc \<Longrightarrow> getitem item ''criteria'' = Inr (field ''criteria'' item)"
    using assms by (simp add: hover_node_def getitem_field)
  have idf: "getitem item ''id'' = Inr i" "field ''id'' item = i"
    using i by (simp_all add: getitem_def field_def)
  show ?thesis
  proof (cases sl)
    case True
    with links obtain v where v: "map_of item ''edges'' = Some v" "py_iter v = Inr (edge_ids item)"
      by blast
    then have "getitem item ''edges'' = Inr v" by (simp add: getitem_def)
    with True v idf mat gam rad cri show ?thesis
      by (simp add: hover_text_def hover_sections_def Let_def)
  next
    case False
    with idf mat gam rad cri show ?thesis
      by (simp add: hover_text_def hover_sections_def Let_def)
  qed
qed

lemma hover_loop_sections:
  "list_all (hover_node sl sm sg sc) items \<Longrightarrow>
   hover_loop sl sm sg sc items acc = Inr (acc @ map (hover_sections sl sm sg sc) items)"
  by (induction items arbitrary: acc) (simp_all add: hover_text_sections)

text \<open>
  Claim C3.  On nodes that have the fields the requested sections read,
  \<open>prepare_hover_text\<close> returns one string for every node, in the order of the input: the
  line \<^verbatim>\<open>Node ID: <id>\<close> followed by the sections whose flag is true, each introduced by
  \<^verbatim>\<open><br>\<close>, in the order links, material, gamma with radius, criteria.  With the four
  flags false the string is exactly \<^verbatim>\<open>Node ID: <id>\<close>.
\<close>

theorem prepare_hover_text_sections:
  "(list_all (hover_node show_links show_material show_gamma_radius show_criteria) data \<longrightarrow>
      prepare_hover_text data show_links show_material show_gamma_radius show_criteria =
        Inr (map (hover_sections show_links show_material show_gamma_radius show_criteria) data))
   \<and> (list_all (has_key ''id'') data \<longrightarrow>
        prepare_hover_text data False False False False =
          Inr (map (\<lambda>item. ''Node ID: '' @ py_str (field ''id'' item)) data))"
proof (intro conjI impI)
  assume "list_all (hover_node show_links show_material show_gamma_radius show_criteria) data"
  then show "prepare_hover_text data show_links show_material show_gamma_radius show_criteria =
        Inr (map (hover_sections show_links show_material show_gamma_radius show_criteria) data)"
    by (simp add: prepare_hover_text_def hover_loop_sections)
next
  assume "list_all (has_key ''id'') data"
  then have "list_all (hover_node False False False False) data"
    by (induction data) (simp_all add: hover_node_def)
  then have "prepare_hover_text data False False False False =
      Inr (map (hover_sections False False False False) data)"
    by (simp add: prepare_hover_text_def hover_loop_sections)
  then show "prepare_hover_text data False False False False =
          Inr (map (\<lambda>item. ''Node ID: '' @ py_str (field ''id'' item)) data)"
    by (simp add: hover_sections_def)
qed

theorem prepare_hover_text_sections_witness:
  "list_all (hover_node False True True False) hover_nodes
   \<and> prepare_hover_text hover_nodes False True True False =
       Inr [''Node ID: 5<br>Material: X<br>Gamma: 2<br>Radius: 3'']
   \<and> list_all (has_key ''id'') hover_nodes
   \<and> prepare_hover_text hover_nodes False False False False = Inr [''Node ID: 5'']
   \<and> list_all (hover_node True True False False) scenario_nodes
   \<and> prepare_hover_text scenario_nodes True True False False =
       Inr [''Node ID: 1<br>Links: 2<br>Material: A'', ''Node ID: 2<br>Links: <br>Material: B'']"
  using prepare_hover_text_sections [of False True True False hover_nodes]
    prepare_hover_text_sections [of True True False False scenario_nodes]
  by (simp add: hover_nodes_def scenario_nodes_def hover_node_def has_key_def hover_sections_def
      field_def edge_ids_def str_int_def)

text \<open>
  Claim C4.  The claim that no builder raises on a record that lacks an optional field
  does not hold of the code: on a record with id, x, y and z only, \<open>get_edges\<close> passes over
  the missing adjacency list, but \<open>prepare_hover_text\<close> raises \<^verbatim>\<open>KeyError\<close> for each
  section whose field is missing, and \<open>prepare_node_colors_and_sizes\<close> raises
  \<^verbatim>\<open>KeyError\<close> for the material with every table and scale.
\<close>

theorem missing_optional_field_raises:
  "get_edges short_nodes = Inr ([], [], [])
   \<and> prepare_hover_text short_nodes True False False False = Inl (KeyError ''edges'')
   \<and> prepare_hover_text short_nodes False True False False = Inl (KeyError ''material'')
   \<and> prepare_hover_text short_nodes False False True False = Inl (KeyError ''gamma'')
   \<and> prepare_hover_text short_nodes False False False True = Inl (KeyError ''criteria'')
   \<and> prepare_node_colors_and_sizes mm mc short_nodes s = Inl (KeyError ''material'')"
  by (simp add: short_nodes_def get_edges_def has_key_def prepare_hover_text_def hover_text_def
      getitem_def prepare_node_colors_and_sizes_def str_int_def)

section \<open>Rendering\<close>

lemma column_fields:
  "list_all (has_key k) data \<Longrightarrow> column k data = Inr (map (field k) data)"
  by (induction data) (simp_all add: getitem_field)

lemma valid_columns:
  "list_all valid_node data \<Longrightarrow>
   column ''x'' data = Inr (map (field ''x'') data) \<and>
   column ''y'' data = Inr (map (field ''y'') data) \<and>
   column ''z'' data = Inr (map (field ''z'') data)"
  by (induction data) (simp_all add: valid_node_def getitem_field)

lemma mode_traces_unrecognized:
  "\<not> recognized plot_type \<Longrightarrow> mode_traces plot_type symbol xs ys zs cs ss hs = None"
  by (simp add: recognized_def mode_traces_def)


lemma get_edges_valid:
  "list_all valid_node data \<Longrightarrow>
   get_edges data =
     Inr (segments ''x'' data data, segments ''y'' data data, segments ''z'' data data)"
  using items_loop_valid [of data data "[]" "[]" "[]"] by (simp add: get_edges_def)

lemma plot_3d_renderable:
  assumes "renderable sl sm sg sc data"
  shows "plot_3d mm mc data ptype symb sl sm sg sc s w =
     (case node_layer mm mc data ptype symb sl sm sg sc s of
        None \<Rightarrow> (None, logging ERROR (''Invalid plot type: '' @ ptype)
                         (logging INFO (''Generating 3D '' @ ptype @ '' plot'') w))
      | Some ts \<Rightarrow>
          (None, rendered (ts @ (if sl then [edge_trace (segments ''x'' data data,
                   segments ''y'' data data, segments ''z'' data data)] else [])) ptype w))"
proof -
  from assms have v: "list_all valid_node data"
    and h: "list_all (hover_node sl sm sg sc) data"
    and st: "list_all styled_node data"
    by (simp_all add: renderable_def)
  note cols = valid_columns [OF v]
  have hov: "prepare_hover_text data sl sm sg sc = Inr (map (hover_sections sl sm sg sc) data)"
    using h by (simp add: prepare_hover_text_def hover_loop_sections)
  have sty: "prepare_node_colors_and_sizes mm mc data s =
      Inr (map (\<lambda>item. resolve_color mm mc (field ''material'' item)) data,
           map (\<lambda>item. PyInt (radius_of item * s)) data)"
    using st by (simp add: prepare_node_colors_and_sizes_def prepare_loop_styled)
  show ?thesis
    by (simp add: plot_3d_def cols hov sty get_edges_valid [OF v] node_layer_def rendered_def
        Let_def split: option.splits)
qed

lemma plot_3d_unrecognized_charts:
  assumes "\<not> recognized ptype"
  shows "charts (snd (plot_3d mm mc data ptype symb sl sm sg sc s w)) = charts w"
  using assms
  by (simp add: plot_3d_def Let_def logging_def mode_traces_unrecognized
      split: sum.splits prod.splits)







text \<open>
  Claim C6.  For a plot type other than the four recognised ones \<open>plot_3d\<close> hands no
  figure to the display, whatever the node list and the flags, so no marker, line, mesh or
  edge trace is produced; and when the builders return, the call ends without an
  exception after logging the error record \<^verbatim>\<open>Invalid plot type: <plot_type>\<close>.
\<close>

theorem plot_3d_invalid_mode:
  assumes "\<not> recognized plot_type"
  shows "charts (snd (plot_3d mm mc data plot_type symbol show_links show_material
                    show_gamma_radius show_criteria node_radius_size w)) = charts w
    \<and> (renderable show_links show_material show_gamma_radius show_criteria data \<longrightarrow>
         plot_3d mm mc data plot_type symbol show_links show_material show_gamma_radius
           show_criteria node_radius_size w =
         (None, logging ERROR (''Invalid plot type: '' @ plot_type)
                  (logging INFO (''Generating 3D '' @ plot_type @ '' plot'') w)))"
proof (intro conjI impI)
  show "charts (snd (plot_3d mm mc data plot_type symbol show_links show_material
                    show_gamma_radius show_criteria node_radius_size w)) = charts w"
    using assms by (rule plot_3d_unrecognized_charts)
next
  assume "renderable show_links show_material show_gamma_radius show_criteria data"
  then show "plot_3d mm mc data plot_type symbol show_links show_material show_gamma_radius
           show_criteria node_radius_size w =
         (None, logging ERROR (''Invalid plot type: '' @ plot_type)
                  (logging INFO (''Generating 3D '' @ plot_type @ '' plot'') w))"
    using assms by (simp add: plot_3d_renderable node_layer_def mode_traces_unrecognized)
qed

theorem plot_3d_invalid_mode_witness:
  "\<not> recognized ''torus'' \<and> renderable True True True True full_nodes
   \<and> plot_3d Map.empty Map.empty full_nodes ''torus'' None True True True True 50
        \<lparr>log_records = [], charts = []\<rparr> =
       (None, \<lparr>log_records = [(INFO, ''Generating 3D torus plot''),
                              (ERROR, ''Invalid plot type: torus'')],
               charts = []\<rparr>)"
  using plot_3d_invalid_mode [of "''torus''" Map.empty Map.empty full_nodes None True True True True 50
      "\<lparr>log_records = [], charts = []\<rparr>"]
  by (simp add: recognized_def renderable_def full_nodes_def valid_node_def hover_node_def
      styled_node_def has_key_def logging_def)



end
